theory Spec2Isabelle
  imports Complex_Main "HOL-Library.Sublist"
begin

section \<open>Values exchanged with the network\<close>

text \<open>
  The scripts talk to a chat-completion endpoint through the \<^verbatim>\<open>requests\<close> library.
  A response is what the code reads from it: the status code, the reason phrase, the body
  text (read by \<^verbatim>\<open>response.json()\<close> and \<^verbatim>\<open>response.text\<close>) and the lines
  that \<^verbatim>\<open>response.iter_lines()\<close> yields. Text is a \<^typ>\<open>string\<close>; on ASCII text
  its positions and lengths are those of a Python \<^verbatim>\<open>str\<close>.
\<close>

record response =
  status_code :: int
  reason :: string
  body_text :: string
  body_lines :: "string list"

text \<open>
  Exceptions are values. Each carries the text that \<^verbatim>\<open>str(e)\<close> gives; an
  \<^verbatim>\<open>HTTPError\<close> also carries its \<^verbatim>\<open>response\<close> attribute, which is
  \<^verbatim>\<open>None\<close> when the error was raised without one. \<open>OtherException\<close> stands
  for any other subclass of \<^verbatim>\<open>Exception\<close>.
\<close>

datatype exn =
    Timeout string
  | ConnectionError string
  | HTTPError string "response option"
  | JSONDecodeError string
  | AttributeError string
  | IndexError string
  | KeyError string
  | TypeError string
  | OtherException string

fun exn_str :: "exn \<Rightarrow> string" where
  "exn_str (Timeout m) = m"
| "exn_str (ConnectionError m) = m"
| "exn_str (HTTPError m r) = m"
| "exn_str (JSONDecodeError m) = m"
| "exn_str (AttributeError m) = m"
| "exn_str (IndexError m) = m"
| "exn_str (KeyError m) = m"
| "exn_str (TypeError m) = m"
| "exn_str (OtherException m) = m"

text \<open>A call either returns a value or raises.\<close>

datatype 'a outcome = Returns 'a | Raises exn


section \<open>The backoff executor\<close>

text \<open>
  \<^verbatim>\<open>retry_with_backoff\<close> of \<^verbatim>\<open>review.py\<close> and of \<^verbatim>\<open>council.py\<close>:
  \<^verbatim>\<open>
  MAX_RETRIES = 3
  INITIAL_BACKOFF_SECONDS = 2  # 2s, 4s, 8s

  def retry_with_backoff(func, max_retries=MAX_RETRIES):
      last_error = None
      for attempt in range(max_retries):
          try:
              return func()
          except requests.exceptions.Timeout as e:
              last_error = e
              if attempt < max_retries - 1:
                  wait = INITIAL_BACKOFF_SECONDS * (2 ** attempt)
                  time.sleep(wait)
          except requests.exceptions.HTTPError as e:
              if hasattr(e, 'response') and e.response is not None:
                  status = e.response.status_code
                  if status >= 500 or status == 429:
                      last_error = e
                      if attempt < max_retries - 1:
                          wait = INITIAL_BACKOFF_SECONDS * (2 ** attempt)
                          time.sleep(wait)
                          continue
              raise
          except requests.exceptions.ConnectionError as e:
              last_error = e
              if attempt < max_retries - 1:
                  wait = INITIAL_BACKOFF_SECONDS * (2 ** attempt)
                  time.sleep(wait)
      raise last_error
  \<close>
  The two copies differ only in the progress lines they print (and the copy in
  \<^verbatim>\<open>review.py\<close> also prints the error message of the response body, inside a
  \<^verbatim>\<open>try\<close> that swallows every exception); the printed lines are not modelled.

  The wrapped operation has effects, so it is a function of the number of calls made
  before: \<open>func k\<close> is what the call number \<open>k\<close> (from 0) does. A run records what
  it returned or raised, how many times it called \<open>func\<close>, and the arguments of
  \<^verbatim>\<open>time.sleep\<close> in order.
\<close>

definition MAX_RETRIES :: int where
  "MAX_RETRIES = 3"

definition INITIAL_BACKOFF_SECONDS :: int where
  "INITIAL_BACKOFF_SECONDS = 2"

record 'a retry_run =
  run_outcome :: "'a outcome"
  run_calls :: nat
  run_sleeps :: "int list"

definition backoff_wait :: "nat \<Rightarrow> int" where
  "backoff_wait attempt = INITIAL_BACKOFF_SECONDS * 2 ^ attempt"

definition sleep_unless_last :: "int \<Rightarrow> nat \<Rightarrow> int list \<Rightarrow> int list" where
  "sleep_unless_last max_retries attempt slept =
     (if int attempt < max_retries - 1 then slept @ [backoff_wait attempt] else slept)"

definition raise_last :: "exn option \<Rightarrow> exn" where
  "raise_last last_error =
     (case last_error of
        Some e \<Rightarrow> e
      | None \<Rightarrow> TypeError ''exceptions must derive from BaseException'')"

fun retry_loop ::
  "(nat \<Rightarrow> 'a outcome) \<Rightarrow> int \<Rightarrow> nat list \<Rightarrow> exn option \<Rightarrow> nat \<Rightarrow> int list \<Rightarrow> 'a retry_run"
where
  "retry_loop func max_retries [] last_error calls slept =
     \<lparr>run_outcome = Raises (raise_last last_error), run_calls = calls, run_sleeps = slept\<rparr>"
| "retry_loop func max_retries (attempt # rest) last_error calls slept =
     (case func calls of
        Returns v \<Rightarrow>
          \<lparr>run_outcome = Returns v, run_calls = Suc calls, run_sleeps = slept\<rparr>
      | Raises e \<Rightarrow>
          (case e of
             Timeout m \<Rightarrow>
               retry_loop func max_retries rest (Some e) (Suc calls)
                 (sleep_unless_last max_retries attempt slept)
           | HTTPError m resp \<Rightarrow>
               (case resp of
                  Some r \<Rightarrow>
                    if status_code r \<ge> 500 \<or> status_code r = 429 then
                      if int attempt < max_retries - 1 then
                        retry_loop func max_retries rest (Some e) (Suc calls)
                          (slept @ [backoff_wait attempt])
                      else
                        \<lparr>run_outcome = Raises e, run_calls = Suc calls, run_sleeps = slept\<rparr>
                    else
                      \<lparr>run_outcome = Raises e, run_calls = Suc calls, run_sleeps = slept\<rparr>
                | None \<Rightarrow>
                    \<lparr>run_outcome = Raises e, run_calls = Suc calls, run_sleeps = slept\<rparr>)
           | ConnectionError m \<Rightarrow>
               retry_loop func max_retries rest (Some e) (Suc calls)
                 (sleep_unless_last max_retries attempt slept)
           | _ \<Rightarrow>
               \<lparr>run_outcome = Raises e, run_calls = Suc calls, run_sleeps = slept\<rparr>))"

definition retry_with_backoff :: "(nat \<Rightarrow> 'a outcome) \<Rightarrow> int \<Rightarrow> 'a retry_run" where
  "retry_with_backoff func max_retries =
     retry_loop func max_retries [0..<nat max_retries] None 0 []"


text \<open>
  The specification names the failures that qualify for a retry: a request timeout, a
  connection failure, and an HTTP error whose response has status 500 or more, or 429.
  \<open>transient\<close> is that list, written from the specification's words, and
  \<open>qualifying_failure\<close> says that a call ended in such a failure.
\<close>

fun transient :: "exn \<Rightarrow> bool" where
  "transient (Timeout m) = True"
| "transient (ConnectionError m) = True"
| "transient (HTTPError m (Some r)) = (status_code r \<ge> 500 \<or> status_code r = 429)"
| "transient e = False"

fun qualifying_failure :: "'a outcome \<Rightarrow> bool" where
  "qualifying_failure (Raises e) = transient e"
| "qualifying_failure (Returns v) = False"

text \<open>
  A scripted operation for concrete runs: call number \<open>k\<close> does what the \<open>k\<close>-th
  entry says, and raises a connection error once the script is used up.
\<close>

definition scripted :: "'a outcome list \<Rightarrow> nat \<Rightarrow> 'a outcome" where
  "scripted outs k =
     (if k < length outs then outs ! k else Raises (ConnectionError ''no more responses''))"


text \<open>Responses and failures for concrete runs.\<close>

definition status_response :: "int \<Rightarrow> response" where
  "status_response code = \<lparr>status_code = code, reason = [], body_text = [], body_lines = []\<rparr>"

abbreviation http_failure :: "int \<Rightarrow> 'a outcome" where
  "http_failure code \<equiv> Raises (HTTPError ''HTTP error'' (Some (status_response code)))"


section \<open>JSON values and the Python operations on them\<close>

text \<open>
  What \<^verbatim>\<open>json.loads\<close> and \<^verbatim>\<open>response.json()\<close> return. Numbers are integers
  here (floating-point numbers are left out); a dictionary is an association list in
  insertion order, with one entry per key.
\<close>

datatype json =
    JNull
  | JBool bool
  | JInt int
  | JStr string
  | JList "json list"
  | JDict "(string \<times> json) list"

fun py_truthy :: "json \<Rightarrow> bool" where
  "py_truthy JNull = False"
| "py_truthy (JBool b) = b"
| "py_truthy (JInt i) = (i \<noteq> 0)"
| "py_truthy (JStr s) = (s \<noteq> [])"
| "py_truthy (JList xs) = (xs \<noteq> [])"
| "py_truthy (JDict kvs) = (kvs \<noteq> [])"

fun py_type_name :: "json \<Rightarrow> string" where
  "py_type_name JNull = ''NoneType''"
| "py_type_name (JBool b) = ''bool''"
| "py_type_name (JInt i) = ''int''"
| "py_type_name (JStr s) = ''str''"
| "py_type_name (JList xs) = ''list''"
| "py_type_name (JDict kvs) = ''dict''"

definition quoted :: "string \<Rightarrow> string" where
  "quoted s = [CHR 0x27] @ s @ [CHR 0x27]"

text \<open>\<^verbatim>\<open>x.get(key, default)\<close>: only a dictionary has the method.\<close>

definition py_get :: "json \<Rightarrow> string \<Rightarrow> json \<Rightarrow> exn + json" where
  "py_get x key dflt =
     (case x of
        JDict kvs \<Rightarrow> Inr (case map_of kvs key of Some v \<Rightarrow> v | None \<Rightarrow> dflt)
      | _ \<Rightarrow> Inl (AttributeError
                 (quoted (py_type_name x) @ '' object has no attribute '' @ quoted ''get'')))"

text \<open>\<^verbatim>\<open>x[0]\<close>. The keys of a JSON dictionary are strings, so the key 0 is never there.\<close>

fun py_index0 :: "json \<Rightarrow> exn + json" where
  "py_index0 (JList []) = Inl (IndexError ''list index out of range'')"
| "py_index0 (JList (v # vs)) = Inr v"
| "py_index0 (JStr []) = Inl (IndexError ''string index out of range'')"
| "py_index0 (JStr (c # cs)) = Inr (JStr [c])"
| "py_index0 (JDict kvs) = Inl (KeyError ''0'')"
| "py_index0 x = Inl (TypeError (quoted (py_type_name x) @ '' object is not subscriptable''))"

text \<open>Sequencing of computations that may raise.\<close>

definition and_then :: "exn + 'a \<Rightarrow> ('a \<Rightarrow> exn + 'b) \<Rightarrow> exn + 'b" where
  "and_then m f = (case m of Inl e \<Rightarrow> Inl e | Inr v \<Rightarrow> f v)"

subsection \<open>\<^verbatim>\<open>str\<close> and \<^verbatim>\<open>repr\<close>\<close>

definition digit_char :: "nat \<Rightarrow> char" where
  "digit_char d = ''0123456789abcdef'' ! d"

function str_nat :: "nat \<Rightarrow> string" where
  "str_nat n = (if n < 10 then [digit_char n] else str_nat (n div 10) @ [digit_char (n mod 10)])"
  by pat_completeness auto
termination
  by (relation "measure id") auto

declare str_nat.simps [simp del]

definition str_int :: "int \<Rightarrow> string" where
  "str_int i = (if i < 0 then CHR ''-'' # str_nat (nat (- i)) else str_nat (nat i))"

definition printable :: "char \<Rightarrow> bool" where
  "printable c =
     (let n = (of_char c :: nat)
      in (32 \<le> n \<and> n < 127) \<or> (161 \<le> n \<and> n \<noteq> 173))"

definition repr_char :: "char \<Rightarrow> char \<Rightarrow> string" where
  "repr_char quote c =
     (if c = quote \<or> c = CHR 0x5C then [CHR 0x5C, c]
      else if c = CHR 0x09 then [CHR 0x5C, CHR ''t'']
      else if c = CHR 0x0A then [CHR 0x5C, CHR ''n'']
      else if c = CHR 0x0D then [CHR 0x5C, CHR ''r'']
      else if printable c then [c]
      else [CHR 0x5C, CHR ''x'', digit_char (of_char c div 16), digit_char (of_char c mod 16)])"

definition repr_str :: "string \<Rightarrow> string" where
  "repr_str s =
     (let quote = (if CHR 0x27 \<in> set s \<and> CHR 0x22 \<notin> set s then CHR 0x22 else CHR 0x27)
      in [quote] @ concat (map (repr_char quote) s) @ [quote])"

fun py_join :: "string \<Rightarrow> string list \<Rightarrow> string" where
  "py_join sep [] = []"
| "py_join sep [x] = x"
| "py_join sep (x # y # ys) = x @ sep @ py_join sep (y # ys)"

fun py_repr :: "json \<Rightarrow> string" where
  "py_repr JNull = ''None''"
| "py_repr (JBool b) = (if b then ''True'' else ''False'')"
| "py_repr (JInt i) = str_int i"
| "py_repr (JStr s) = repr_str s"
| "py_repr (JList xs) = ''['' @ py_join '', '' (map py_repr xs) @ '']''"
| "py_repr (JDict kvs) =
     ''{'' @ py_join '', '' (map (\<lambda>kv. repr_str (fst kv) @ '': '' @ py_repr (snd kv)) kvs) @ ''}''"

fun py_str :: "json \<Rightarrow> string" where
  "py_str (JStr s) = s"
| "py_str v = py_repr v"

text \<open>
  \<^verbatim>\<open>''.join(items)\<close>: every item must be a string; the first one that is not raises
  \<^verbatim>\<open>TypeError\<close>.
\<close>

fun join_items :: "nat \<Rightarrow> json list \<Rightarrow> exn + string" where
  "join_items i [] = Inr []"
| "join_items i (JStr s # rest) =
     (case join_items (Suc i) rest of Inl e \<Rightarrow> Inl e | Inr t \<Rightarrow> Inr (s @ t))"
| "join_items i (v # rest) =
     Inl (TypeError (''sequence item '' @ str_nat i @ '': expected str instance, ''
                     @ py_type_name v @ '' found''))"

text \<open>\<^verbatim>\<open>s[:n]\<close>: a negative bound counts from the end.\<close>

definition py_slice_to :: "'a list \<Rightarrow> int \<Rightarrow> 'a list" where
  "py_slice_to s n = (if n < 0 then take (nat (int (length s) + n)) s else take (nat n) s)"

text \<open>\<^verbatim>\<open>int(x)\<close> on a number with a fraction truncates towards zero.\<close>

definition py_int :: "real \<Rightarrow> int" where
  "py_int x = (if x < 0 then \<lceil>x\<rceil> else \<lfloor>x\<rfloor>)"


text \<open>\<^verbatim>\<open>s.strip()\<close> removes the white space of \<^verbatim>\<open>str.isspace\<close> at both ends.\<close>

definition py_isspace :: "char \<Rightarrow> bool" where
  "py_isspace c =
     (let n = (of_char c :: nat)
      in (9 \<le> n \<and> n \<le> 13) \<or> (28 \<le> n \<and> n \<le> 32) \<or> n = 133 \<or> n = 160)"

definition py_strip :: "string \<Rightarrow> string" where
  "py_strip s = rev (dropWhile py_isspace (rev (dropWhile py_isspace s)))"

definition starts_with :: "string \<Rightarrow> string \<Rightarrow> bool" where
  "starts_with p s = (take (length p) s = p)"

abbreviation nl :: string where
  "nl \<equiv> [CHR 0x0A]"


section \<open>A reference JSON parser\<close>

text \<open>
  \<^verbatim>\<open>json.loads\<close> belongs to the Python standard library, not to the repository, so
  the functions below that parse JSON take the parser as a parameter \<open>loads\<close>:
  \<open>loads s = Inr v\<close> when \<open>s\<close> parses to \<open>v\<close>, and \<open>loads s = Inl m\<close> when
  \<^verbatim>\<open>json.loads\<close> raises \<^verbatim>\<open>JSONDecodeError\<close> with message \<open>m\<close>.

  \<open>json_loads\<close> is a parser for the JSON texts that use objects, arrays, strings with the
  one-letter escapes, integers, \<^verbatim>\<open>true\<close>, \<^verbatim>\<open>false\<close> and \<^verbatim>\<open>null\<close>; it
  follows the standard library's scanner (white space, no trailing comma, the last
  of two equal keys wins, nothing but white space after the value). It serves to run
  the decoder on concrete lines. Texts with a fraction, an exponent or a
  four-digit code-point escape are outside its fragment and are rejected, and its error message
  is a fixed text.
\<close>

definition is_json_ws :: "char \<Rightarrow> bool" where
  "is_json_ws c = (c = CHR '' '' \<or> c = CHR 0x09 \<or> c = CHR 0x0A \<or> c = CHR 0x0D)"

fun skip_ws :: "string \<Rightarrow> string" where
  "skip_ws [] = []"
| "skip_ws (c # cs) = (if is_json_ws c then skip_ws cs else c # cs)"

definition is_digit :: "char \<Rightarrow> bool" where
  "is_digit c = (c \<in> set ''0123456789'')"

definition digit_val :: "char \<Rightarrow> nat" where
  "digit_val c = of_char c - 48"

fun scan_string :: "string \<Rightarrow> string \<Rightarrow> (string \<times> string) option" where
  "scan_string acc [] = None"
| "scan_string acc (c # cs) =
     (if c = CHR 0x22 then Some (acc, cs)
      else if c = CHR 0x5C then
        (case cs of
           [] \<Rightarrow> None
         | e # rest \<Rightarrow>
             if e = CHR 0x22 \<or> e = CHR 0x5C \<or> e = CHR ''/'' then scan_string (acc @ [e]) rest
             else if e = CHR ''b'' then scan_string (acc @ [CHR 0x08]) rest
             else if e = CHR ''f'' then scan_string (acc @ [CHR 0x0C]) rest
             else if e = CHR ''n'' then scan_string (acc @ [CHR 0x0A]) rest
             else if e = CHR ''r'' then scan_string (acc @ [CHR 0x0D]) rest
             else if e = CHR ''t'' then scan_string (acc @ [CHR 0x09]) rest
             else None)
      else if (of_char c :: nat) < 32 then None
      else scan_string (acc @ [c]) cs)"

fun scan_digits :: "nat \<Rightarrow> string \<Rightarrow> nat \<times> string" where
  "scan_digits acc [] = (acc, [])"
| "scan_digits acc (c # cs) =
     (if is_digit c then scan_digits (10 * acc + digit_val c) cs else (acc, c # cs))"

definition scan_nat :: "string \<Rightarrow> (nat \<times> string) option" where
  "scan_nat s =
     (case s of
        [] \<Rightarrow> None
      | c # cs \<Rightarrow>
          if c = CHR ''0'' then Some (0, cs)
          else if is_digit c then Some (scan_digits 0 (c # cs))
          else None)"

definition not_fraction :: "string \<Rightarrow> bool" where
  "not_fraction s =
     (case s of [] \<Rightarrow> True | c # cs \<Rightarrow> c \<noteq> CHR ''.'' \<and> c \<noteq> CHR ''e'' \<and> c \<noteq> CHR ''E'')"

definition scan_number :: "string \<Rightarrow> (json \<times> string) option" where
  "scan_number s =
     (case s of
        [] \<Rightarrow> None
      | c # cs \<Rightarrow>
          if c = CHR ''-'' then
            (case scan_nat cs of
               Some (n, rest) \<Rightarrow> if not_fraction rest then Some (JInt (- int n), rest) else None
             | None \<Rightarrow> None)
          else
            (case scan_nat (c # cs) of
               Some (n, rest) \<Rightarrow> if not_fraction rest then Some (JInt (int n), rest) else None
             | None \<Rightarrow> None))"

fun strip_prefix :: "string \<Rightarrow> string \<Rightarrow> string option" where
  "strip_prefix [] s = Some s"
| "strip_prefix (p # ps) [] = None"
| "strip_prefix (p # ps) (c # cs) = (if p = c then strip_prefix ps cs else None)"

fun dict_store :: "string \<Rightarrow> json \<Rightarrow> (string \<times> json) list \<Rightarrow> (string \<times> json) list" where
  "dict_store k v [] = [(k, v)]"
| "dict_store k v ((k', v') # kvs) =
     (if k' = k then (k, v) # kvs else (k', v') # dict_store k v kvs)"

text \<open>
  The three scanners call each other; every call consumes one unit of \<open>fuel\<close>, and
  \<open>json_loads\<close> starts with more fuel than the text has characters.
\<close>

fun scan_value :: "nat \<Rightarrow> string \<Rightarrow> (json \<times> string) option"
  and scan_elements :: "nat \<Rightarrow> json list \<Rightarrow> string \<Rightarrow> (json \<times> string) option"
  and scan_members :: "nat \<Rightarrow> (string \<times> json) list \<Rightarrow> string \<Rightarrow> (json \<times> string) option"
where
  "scan_value 0 s = None"
| "scan_value (Suc fuel) [] = None"
| "scan_value (Suc fuel) (c # cs) =
     (if c = CHR 0x22 then
        (case scan_string [] cs of Some (str, rest) \<Rightarrow> Some (JStr str, rest) | None \<Rightarrow> None)
      else if c = CHR ''{'' then
        (case skip_ws cs of
           [] \<Rightarrow> None
         | d # ds \<Rightarrow> if d = CHR ''}'' then Some (JDict [], ds) else scan_members fuel [] (d # ds))
      else if c = CHR ''['' then
        (case skip_ws cs of
           [] \<Rightarrow> None
         | d # ds \<Rightarrow> if d = CHR '']'' then Some (JList [], ds) else scan_elements fuel [] (d # ds))
      else if c = CHR ''n'' then
        (case strip_prefix ''ull'' cs of Some rest \<Rightarrow> Some (JNull, rest) | None \<Rightarrow> None)
      else if c = CHR ''t'' then
        (case strip_prefix ''rue'' cs of Some rest \<Rightarrow> Some (JBool True, rest) | None \<Rightarrow> None)
      else if c = CHR ''f'' then
        (case strip_prefix ''alse'' cs of Some rest \<Rightarrow> Some (JBool False, rest) | None \<Rightarrow> None)
      else scan_number (c # cs))"
| "scan_elements 0 acc s = None"
| "scan_elements (Suc fuel) acc s =
     (case scan_value fuel s of
        None \<Rightarrow> None
      | Some (v, rest) \<Rightarrow>
          (case skip_ws rest of
             [] \<Rightarrow> None
           | d # ds \<Rightarrow>
               if d = CHR '']'' then Some (JList (acc @ [v]), ds)
               else if d = CHR '','' then scan_elements fuel (acc @ [v]) (skip_ws ds)
               else None))"
| "scan_members 0 acc s = None"
| "scan_members (Suc fuel) acc s =
     (case s of
        [] \<Rightarrow> None
      | q # qs \<Rightarrow>
          if q \<noteq> CHR 0x22 then None
          else
            (case scan_string [] qs of
               None \<Rightarrow> None
             | Some (k, rest) \<Rightarrow>
                 (case skip_ws rest of
                    [] \<Rightarrow> None
                  | c # cs \<Rightarrow>
                      if c \<noteq> CHR '':'' then None
                      else
                        (case scan_value fuel (skip_ws cs) of
                           None \<Rightarrow> None
                         | Some (v, rest') \<Rightarrow>
                             (case skip_ws rest' of
                                [] \<Rightarrow> None
                              | d # ds \<Rightarrow>
                                  if d = CHR ''}'' then Some (JDict (dict_store k v acc), ds)
                                  else if d = CHR '','' then
                                    scan_members fuel (dict_store k v acc) (skip_ws ds)
                                  else None)))))"

definition json_loads :: "string \<Rightarrow> string + json" where
  "json_loads s =
     (case scan_value (Suc (length s)) (skip_ws s) of
        None \<Rightarrow> Inl ''not a JSON document''
      | Some (v, rest) \<Rightarrow> if skip_ws rest = [] then Inr v else Inl ''not a JSON document'')"


section \<open>The stream decoder\<close>

text \<open>
  The streaming branch of \<^verbatim>\<open>call_openrouter\<close> in \<^verbatim>\<open>review.py\<close>:
  \<^verbatim>\<open>
  full_content = []
  malformed_count = 0
  for line in response.iter_lines():
      if line:
          line_str = line.decode('utf-8')
          if line_str.startswith('data: '):
              data_str = line_str[6:]  # Remove 'data: ' prefix
              if data_str.strip() == '[DONE]':
                  break
              try:
                  data = json.loads(data_str)
                  delta = data.get('choices', [{}])[0].get('delta', {})
                  content = delta.get('content', '')
                  if content:
                      print(content, end='', flush=True)
                      full_content.append(content)
              except json.JSONDecodeError as e:
                  malformed_count += 1
  print()  # Final newline
  return ''.join(full_content)
  \<close>
  The lines are taken as decoded text. Only \<^verbatim>\<open>JSONDecodeError\<close> is caught inside
  the loop: any other exception of the three lookups leaves the loop and the
  function's outer \<^verbatim>\<open>try\<close> deals with it.
\<close>

definition chunk_content :: "json \<Rightarrow> exn + json" where
  "chunk_content data =
     and_then (py_get data ''choices'' (JList [JDict []])) (\<lambda>choices.
     and_then (py_index0 choices) (\<lambda>choice.
     and_then (py_get choice ''delta'' (JDict [])) (\<lambda>delta.
     py_get delta ''content'' (JStr []))))"

record stream_state =
  full_content :: "json list"
  malformed_count :: nat
  printed :: "string list"

fun decode_lines ::
  "(string \<Rightarrow> string + json) \<Rightarrow> string list \<Rightarrow> stream_state \<Rightarrow> exn + stream_state"
where
  "decode_lines loads [] st = Inr st"
| "decode_lines loads (line # rest) st =
     (if line = [] then decode_lines loads rest st
      else if \<not> starts_with ''data: '' line then decode_lines loads rest st
      else if py_strip (drop 6 line) = ''[DONE]'' then Inr st
      else
        (case loads (drop 6 line) of
           Inl msg \<Rightarrow>
             decode_lines loads rest (st\<lparr>malformed_count := Suc (malformed_count st)\<rparr>)
         | Inr data \<Rightarrow>
             (case chunk_content data of
                Inl e \<Rightarrow> Inl e
              | Inr content \<Rightarrow>
                  if py_truthy content then
                    decode_lines loads rest
                      (st\<lparr>full_content := full_content st @ [content],
                          printed := printed st @ [py_str content]\<rparr>)
                  else decode_lines loads rest st)))"

definition decode_stream ::
  "(string \<Rightarrow> string + json) \<Rightarrow> string list \<Rightarrow> exn + (string \<times> stream_state)"
where
  "decode_stream loads lines =
     and_then (decode_lines loads lines \<lparr>full_content = [], malformed_count = 0, printed = []\<rparr>)
       (\<lambda>st. and_then (join_items 0 (full_content st))
         (\<lambda>text. Inr (text, st\<lparr>printed := printed st @ [nl]\<rparr>)))"



section \<open>The review context and its rendering\<close>

text \<open>
  The context is the dictionary that \<^verbatim>\<open>json.load\<close> reads from the context file.
  It is modelled with its types: every key is either absent (\<open>None\<close>) or holds a value
  of its type. A mapping from paths to texts is an association list in insertion order.
  A nested dictionary (\<^verbatim>\<open>conversation_context\<close>, \<^verbatim>\<open>pr_metadata\<close>) is a
  record of optional keys; Python takes it for true when it has at least one key.
\<close>

record exchange =
  msg_role :: "string option"
  msg_content :: "string option"

record conversation =
  original_request :: "string option"
  approach_notes :: "string option"
  relevant_exchanges :: "exchange list option"
  previous_review_findings :: "string option"

record pr_info =
  pr_number :: "int option"
  pr_title :: "string option"
  pr_author :: "string option"
  pr_head_branch :: "string option"
  pr_base_branch :: "string option"
  pr_additions :: "int option"
  pr_deletions :: "int option"
  pr_body :: "string option"

record review_context =
  conversation_context :: "conversation option"
  plan_content :: "string option"
  pr_metadata :: "pr_info option"
  diff :: "string option"
  file_contents :: "(string \<times> string) list option"
  documentation :: "(string \<times> string) list option"
  test_files :: "(string \<times> string) list option"
  dependent_files :: "(string \<times> string) list option"

text \<open>Truth values of \<^verbatim>\<open>d.get(key)\<close>: a text or a mapping counts when it is not empty.\<close>

definition given :: "'a list option \<Rightarrow> bool" where
  "given v = (case v of None \<Rightarrow> False | Some x \<Rightarrow> x \<noteq> [])"

definition conversation_given :: "conversation option \<Rightarrow> bool" where
  "conversation_given v =
     (case v of
        None \<Rightarrow> False
      | Some cc \<Rightarrow>
          original_request cc \<noteq> None \<or> approach_notes cc \<noteq> None \<or>
          relevant_exchanges cc \<noteq> None \<or> previous_review_findings cc \<noteq> None)"

definition pr_given :: "pr_info option \<Rightarrow> bool" where
  "pr_given v =
     (case v of
        None \<Rightarrow> False
      | Some pr \<Rightarrow>
          pr_number pr \<noteq> None \<or> pr_title pr \<noteq> None \<or> pr_author pr \<noteq> None \<or>
          pr_head_branch pr \<noteq> None \<or> pr_base_branch pr \<noteq> None \<or>
          pr_additions pr \<noteq> None \<or> pr_deletions pr \<noteq> None \<or> pr_body pr \<noteq> None)"

text \<open>
  \<^verbatim>\<open>build_user_message\<close> appends strings to the list \<^verbatim>\<open>parts\<close> and returns
  \<^verbatim>\<open>"".join(parts)\<close>. The model keeps the list, and marks the strings that are
  section headers: \<open>Header s\<close> stands for the header line of section \<open>s\<close>, any other
  string is a \<open>Text\<close>. \<open>render\<close> gives each part its string back.
\<close>

datatype heading =
    Developer_Intent
  | Plan_To_Review
  | Pull_Request_Information
  | Code_Changes
  | Full_File_Contents
  | Relevant_Documentation
  | Related_Test_Files
  | Cross_File_Dependencies

datatype part = Header heading | Text string

fun header_title :: "heading \<Rightarrow> string" where
  "header_title Developer_Intent = ''## Developer Intent''"
| "header_title Plan_To_Review = ''## Plan to Review''"
| "header_title Pull_Request_Information = ''## Pull Request Information''"
| "header_title Code_Changes = ''## Code Changes (Diff)''"
| "header_title Full_File_Contents = ''## Full File Contents''"
| "header_title Relevant_Documentation = ''## Relevant Documentation''"
| "header_title Related_Test_Files = ''## Related Test Files''"
| "header_title Cross_File_Dependencies = ''## Cross-File Dependencies''"

fun render :: "part \<Rightarrow> string" where
  "render (Header Developer_Intent) = header_title Developer_Intent @ nl @ nl"
| "render (Header s) = header_title s @ nl"
| "render (Text t) = t"

text \<open>
  The conversation block:
  \<^verbatim>\<open>
  if context.get("conversation_context"):
      cc = context["conversation_context"]
      parts.append("## Developer Intent\n\n")
      if cc.get("original_request"):
          parts.append(f"**Original Request:** {cc['original_request']}\n\n")
      if cc.get("approach_notes"):
          parts.append(f"**Approach Notes:** {cc['approach_notes']}\n\n")
      if cc.get("relevant_exchanges"):
          parts.append("**Relevant Discussion:**\n")
          for msg in cc["relevant_exchanges"]:
              role = "User" if msg.get("role") == "user" else "Agent"
              content = msg.get("content", "")[:500]
              parts.append(f"- **{role}:** {content}\n")
          parts.append("\n")
      if cc.get("previous_review_findings"):
          parts.append(f"**Prior Review Notes:** {cc['previous_review_findings']}\n\n")
      parts.append("---\n\n")
  \<close>
\<close>

definition labelled :: "string \<Rightarrow> string option \<Rightarrow> part list" where
  "labelled label v =
     (case v of
        None \<Rightarrow> []
      | Some t \<Rightarrow> if t = [] then [] else [Text (label @ t @ nl @ nl)])"

definition exchange_part :: "exchange \<Rightarrow> part" where
  "exchange_part msg =
     (let role = (if msg_role msg = Some ''user'' then ''User'' else ''Agent'');
          content = py_slice_to (case msg_content msg of None \<Rightarrow> [] | Some c \<Rightarrow> c) 500
      in Text (''- **'' @ role @ '':** '' @ content @ nl))"

definition discussion_parts :: "exchange list option \<Rightarrow> part list" where
  "discussion_parts v =
     (case v of
        None \<Rightarrow> []
      | Some msgs \<Rightarrow>
          if msgs = [] then []
          else [Text (''**Relevant Discussion:**'' @ nl)] @ map exchange_part msgs @ [Text nl])"

definition intent_parts :: "review_context \<Rightarrow> part list" where
  "intent_parts context =
     (if conversation_given (conversation_context context) then
        (case conversation_context context of
           None \<Rightarrow> []
         | Some cc \<Rightarrow>
             [Header Developer_Intent]
             @ labelled ''**Original Request:** '' (original_request cc)
             @ labelled ''**Approach Notes:** '' (approach_notes cc)
             @ discussion_parts (relevant_exchanges cc)
             @ labelled ''**Prior Review Notes:** '' (previous_review_findings cc)
             @ [Text (''---'' @ nl @ nl)])
      else [])"

text \<open>
  The plan block, with the placeholder of each script
  (\<^verbatim>\<open>"No plan content provided"\<close> in \<^verbatim>\<open>review.py\<close>, \<^verbatim>\<open>"No plan content"\<close> in
  \<^verbatim>\<open>council.py\<close>):
  \<^verbatim>\<open>
  if review_type == "plan":
      parts.append("## Plan to Review\n")
      parts.append(context.get("plan_content", "No plan content provided"))
      parts.append("\n\n")
  \<close>
\<close>

definition plan_parts :: "string \<Rightarrow> review_context \<Rightarrow> string \<Rightarrow> part list" where
  "plan_parts placeholder context review_type =
     (if review_type = ''plan'' then
        [Header Plan_To_Review,
         Text (case plan_content context of None \<Rightarrow> placeholder | Some t \<Rightarrow> t),
         Text (nl @ nl)]
      else [])"

text \<open>
  The pull-request block of \<^verbatim>\<open>review.py\<close>:
  \<^verbatim>\<open>
  if review_type == "pr" and context.get("pr_metadata"):
      pr = context["pr_metadata"]
      parts.append("## Pull Request Information\n")
      parts.append(f"**PR #{pr.get('number', 'N/A')}**: {pr.get('title', 'No title')}\n")
      parts.append(f"**Author**: {pr.get('author', 'Unknown')}\n")
      parts.append(f"**Branch**: {pr.get('head_branch', '?')} -> {pr.get('base_branch', '?')}\n")
      parts.append(f"**Changes**: +{pr.get('additions', 0)} / -{pr.get('deletions', 0)}\n\n")
      if pr.get("body"):
          parts.append("### PR Description\n")
          parts.append(pr["body"])
          parts.append("\n\n")
  \<close>
  where the arrow between the branches is the character U+2192 in \<^verbatim>\<open>review.py\<close>
  (written here as its three UTF-8 bytes) and \<^verbatim>\<open>->\<close> in \<^verbatim>\<open>council.py\<close>.
  The copy in \<^verbatim>\<open>council.py\<close> gives no defaults for the number, the title, the
  author and the branches, so a missing one prints as \<^verbatim>\<open>None\<close>.
\<close>

definition text_or :: "string \<Rightarrow> string option \<Rightarrow> string" where
  "text_or dflt v = (case v of None \<Rightarrow> dflt | Some t \<Rightarrow> t)"

definition int_or :: "string \<Rightarrow> int option \<Rightarrow> string" where
  "int_or dflt v = (case v of None \<Rightarrow> dflt | Some i \<Rightarrow> str_int i)"

definition pr_body_parts :: "pr_info \<Rightarrow> part list" where
  "pr_body_parts pr =
     (if given (pr_body pr) then
        [Text (''### PR Description'' @ nl), Text (text_or [] (pr_body pr)), Text (nl @ nl)]
      else [])"

definition review_pr_parts :: "review_context \<Rightarrow> string \<Rightarrow> part list" where
  "review_pr_parts context review_type =
     (if review_type = ''pr'' \<and> pr_given (pr_metadata context) then
        (case pr_metadata context of
           None \<Rightarrow> []
         | Some pr \<Rightarrow>
             [Header Pull_Request_Information,
              Text (''**PR #'' @ int_or ''N/A'' (pr_number pr) @ ''**: ''
                    @ text_or ''No title'' (pr_title pr) @ nl),
              Text (''**Author**: '' @ text_or ''Unknown'' (pr_author pr) @ nl),
              Text (''**Branch**: '' @ text_or ''?'' (pr_head_branch pr)
                    @ [CHR '' '', CHR 0xE2, CHR 0x86, CHR 0x92, CHR '' '']
                    @ text_or ''?'' (pr_base_branch pr) @ nl),
              Text (''**Changes**: +'' @ int_or ''0'' (pr_additions pr) @ '' / -''
                    @ int_or ''0'' (pr_deletions pr) @ nl @ nl)]
             @ pr_body_parts pr)
      else [])"

definition council_pr_parts :: "review_context \<Rightarrow> string \<Rightarrow> part list" where
  "council_pr_parts context review_type =
     (if review_type = ''pr'' \<and> pr_given (pr_metadata context) then
        (case pr_metadata context of
           None \<Rightarrow> []
         | Some pr \<Rightarrow>
             [Header Pull_Request_Information,
              Text (''**PR #'' @ int_or ''None'' (pr_number pr) @ ''**: ''
                    @ text_or ''None'' (pr_title pr) @ nl),
              Text (''**Author**: '' @ text_or ''None'' (pr_author pr) @ nl),
              Text (''**Branch**: '' @ text_or ''None'' (pr_head_branch pr) @ '' -> ''
                    @ text_or ''None'' (pr_base_branch pr) @ nl),
              Text (''**Changes**: +'' @ int_or ''0'' (pr_additions pr) @ '' / -''
                    @ int_or ''0'' (pr_deletions pr) @ nl @ nl)]
             @ pr_body_parts pr)
      else [])"

text \<open>
  The remaining blocks are the same in both scripts:
  \<^verbatim>\<open>
  if context.get("diff"):
      parts.append("## Code Changes (Diff)\n```diff\n")
      parts.append(context["diff"])
      parts.append("\n```\n\n")
  if context.get("file_contents"):
      parts.append("## Full File Contents\n")
      for path, content in context["file_contents"].items():
          parts.append(f"### {path}\n```\n{content}\n```\n\n")
  if context.get("documentation"):
      parts.append("## Relevant Documentation\n")
      for path, content in context["documentation"].items():
          parts.append(f"### {path}\n{content}\n\n")
  if context.get("test_files"):
      parts.append("## Related Test Files\n")
      for path, content in context["test_files"].items():
          parts.append(f"### {path}\n```\n{content}\n```\n\n")
  if context.get("dependent_files"):
      parts.append("## Cross-File Dependencies\n")
      for path, content in context["dependent_files"].items():
          parts.append(f"### {path}\n```\n{content}\n```\n\n")
  \<close>
  The first string of the diff block is the header line followed by the opening fence;
  the model emits the two one after the other.
\<close>

definition diff_parts :: "review_context \<Rightarrow> part list" where
  "diff_parts context =
     (if given (diff context) then
        [Header Code_Changes, Text (''```diff'' @ nl), Text (text_or [] (diff context)),
         Text (nl @ ''```'' @ nl @ nl)]
      else [])"

definition fenced_file :: "string \<times> string \<Rightarrow> part" where
  "fenced_file entry =
     Text (''### '' @ fst entry @ nl @ ''```'' @ nl @ snd entry @ nl @ ''```'' @ nl @ nl)"

definition plain_file :: "string \<times> string \<Rightarrow> part" where
  "plain_file entry = Text (''### '' @ fst entry @ nl @ snd entry @ nl @ nl)"

definition files_parts ::
  "heading \<Rightarrow> (string \<times> string \<Rightarrow> part) \<Rightarrow> (string \<times> string) list option \<Rightarrow> part list"
where
  "files_parts s entry_part v =
     (if given v then
        (case v of None \<Rightarrow> [] | Some entries \<Rightarrow> Header s # map entry_part entries)
      else [])"

definition common_parts :: "review_context \<Rightarrow> part list" where
  "common_parts context =
     diff_parts context
     @ files_parts Full_File_Contents fenced_file (file_contents context)
     @ files_parts Relevant_Documentation plain_file (documentation context)
     @ files_parts Related_Test_Files fenced_file (test_files context)
     @ files_parts Cross_File_Dependencies fenced_file (dependent_files context)"

definition review_parts :: "review_context \<Rightarrow> string \<Rightarrow> part list" where
  "review_parts context review_type =
     intent_parts context
     @ plan_parts ''No plan content provided'' context review_type
     @ review_pr_parts context review_type
     @ common_parts context"

definition council_parts :: "review_context \<Rightarrow> string \<Rightarrow> part list" where
  "council_parts context review_type =
     intent_parts context
     @ plan_parts ''No plan content'' context review_type
     @ council_pr_parts context review_type
     @ common_parts context"

text \<open>\<^verbatim>\<open>build_user_message\<close> of \<^verbatim>\<open>review.py\<close> and of \<^verbatim>\<open>council.py\<close>.\<close>

definition review_build_user_message :: "review_context \<Rightarrow> string \<Rightarrow> string" where
  "review_build_user_message context review_type =
     concat (map render (review_parts context review_type))"

definition council_build_user_message :: "review_context \<Rightarrow> string \<Rightarrow> string" where
  "council_build_user_message context review_type =
     concat (map render (council_parts context review_type))"

text \<open>
  The condition under which the code emits each section, read off the \<^verbatim>\<open>if\<close>
  that guards its block.
\<close>

fun section_condition :: "heading \<Rightarrow> review_context \<Rightarrow> string \<Rightarrow> bool" where
  "section_condition Developer_Intent context review_type =
     conversation_given (conversation_context context)"
| "section_condition Plan_To_Review context review_type = (review_type = ''plan'')"
| "section_condition Pull_Request_Information context review_type =
     (review_type = ''pr'' \<and> pr_given (pr_metadata context))"
| "section_condition Code_Changes context review_type = given (diff context)"
| "section_condition Full_File_Contents context review_type = given (file_contents context)"
| "section_condition Relevant_Documentation context review_type = given (documentation context)"
| "section_condition Related_Test_Files context review_type = given (test_files context)"
| "section_condition Cross_File_Dependencies context review_type =
     given (dependent_files context)"


section \<open>Truncation of the prompt\<close>

text \<open>
  \<^verbatim>\<open>review.py\<close>, in \<^verbatim>\<open>call_openrouter\<close>:
  \<^verbatim>\<open>
  max_context = config.get("max_context", 200000)
  if len(user_message) > max_context:
      user_message = user_message[:max_context] + "\n\n[... truncated due to length ...]"
  \<close>
  \<^verbatim>\<open>council.py\<close>, in \<^verbatim>\<open>run_council\<close>:
  \<^verbatim>\<open>
  max_context = config.get("max_context", 200000)
  if len(user_message) > max_context:
      user_message = user_message[:max_context] + "\n\n[... truncated ...]"
  \<close>
\<close>

definition review_marker :: string where
  "review_marker = nl @ nl @ ''[... truncated due to length ...]''"

definition council_marker :: string where
  "council_marker = nl @ nl @ ''[... truncated ...]''"

definition truncate_message :: "string \<Rightarrow> int \<Rightarrow> string \<Rightarrow> string" where
  "truncate_message marker max_context user_message =
     (if int (length user_message) > max_context
      then py_slice_to user_message max_context @ marker
      else user_message)"

record config =
  cfg_model :: string
  cfg_max_context :: "int option"
  cfg_reasoning :: "string option"
  cfg_enable_web_search :: "bool option"
  cfg_council_models :: "(string \<times> string) list option"

definition max_context_of :: "config \<Rightarrow> int" where
  "max_context_of cfg = (case cfg_max_context cfg of None \<Rightarrow> 200000 | Some n \<Rightarrow> n)"

definition review_user_message :: "config \<Rightarrow> review_context \<Rightarrow> string \<Rightarrow> string" where
  "review_user_message cfg context review_type =
     truncate_message review_marker (max_context_of cfg)
       (review_build_user_message context review_type)"

definition council_user_message :: "config \<Rightarrow> review_context \<Rightarrow> string \<Rightarrow> string" where
  "council_user_message cfg context review_type =
     truncate_message council_marker (max_context_of cfg)
       (council_build_user_message context review_type)"


section \<open>The single reviewer client\<close>

text \<open>
  \<^verbatim>\<open>make_request\<close> posts the payload and calls \<^verbatim>\<open>raise_for_status\<close> on the
  response, which raises an \<^verbatim>\<open>HTTPError\<close> carrying the response for a status from
  400 to 599. What the server answers does not depend on the model: \<open>post k\<close> is what
  the \<open>k\<close>-th call of \<^verbatim>\<open>requests.post\<close> does.
\<close>

definition OPENROUTER_URL :: string where
  "OPENROUTER_URL = ''https://openrouter.ai/api/v1/chat/completions''"

definition raise_for_status :: "response \<Rightarrow> response outcome" where
  "raise_for_status r =
     (if 400 \<le> status_code r \<and> status_code r < 500 then
        Raises (HTTPError (str_int (status_code r) @ '' Client Error: '' @ reason r
                           @ '' for url: '' @ OPENROUTER_URL) (Some r))
      else if 500 \<le> status_code r \<and> status_code r < 600 then
        Raises (HTTPError (str_int (status_code r) @ '' Server Error: '' @ reason r
                           @ '' for url: '' @ OPENROUTER_URL) (Some r))
      else Returns r)"

definition make_request :: "(nat \<Rightarrow> response outcome) \<Rightarrow> nat \<Rightarrow> response outcome" where
  "make_request post k = (case post k of Raises e \<Rightarrow> Raises e | Returns r \<Rightarrow> raise_for_status r)"

definition response_json :: "(string \<Rightarrow> string + json) \<Rightarrow> response \<Rightarrow> exn + json" where
  "response_json loads r =
     (case loads (body_text r) of Inl msg \<Rightarrow> Inl (JSONDecodeError msg) | Inr v \<Rightarrow> Inr v)"

text \<open>
  \<^verbatim>\<open>call_openrouter\<close> of \<^verbatim>\<open>review.py\<close>, called with \<^verbatim>\<open>stream=True\<close> (the
  default):
  \<^verbatim>\<open>
  try:
      response = retry_with_backoff(make_request)
      if stream:
          ... the stream decoder ...
          return ''.join(full_content)
  except requests.exceptions.Timeout:
      return "ERROR: Request timed out after retries. The model may be overloaded. Try again later."
  except requests.exceptions.HTTPError as e:
      error_detail = ""
      try:
          if hasattr(e, 'response') and e.response is not None:
              error_detail = e.response.json().get("error", {}).get("message", "")
      except (json.JSONDecodeError, KeyError, TypeError):
          pass
      return f"ERROR: API request failed: {e}\n{error_detail}"
  except Exception as e:
      return f"ERROR: Unexpected error: {e}"
  \<close>
  An exception raised inside a handler is not caught by the handlers that follow it:
  it leaves \<^verbatim>\<open>call_openrouter\<close>. The result is therefore either the returned text
  (\<open>Inr\<close>) or the exception that leaves the function (\<open>Inl\<close>). The model leaves out
  the parts of the payload other than the user message, and the non-streaming branch.
\<close>

fun passed_over :: "exn \<Rightarrow> bool" where
  "passed_over (JSONDecodeError m) = True"
| "passed_over (KeyError m) = True"
| "passed_over (TypeError m) = True"
| "passed_over e = False"

definition error_detail :: "(string \<Rightarrow> string + json) \<Rightarrow> response option \<Rightarrow> exn + json" where
  "error_detail loads resp =
     (case resp of
        None \<Rightarrow> Inr (JStr [])
      | Some r \<Rightarrow>
          (case and_then (response_json loads r) (\<lambda>body.
                and_then (py_get body ''error'' (JDict [])) (\<lambda>err.
                py_get err ''message'' (JStr []))) of
             Inr detail \<Rightarrow> Inr detail
           | Inl e \<Rightarrow> if passed_over e then Inr (JStr []) else Inl e))"

definition on_failure :: "(string \<Rightarrow> string + json) \<Rightarrow> exn \<Rightarrow> exn + string" where
  "on_failure loads e =
     (case e of
        Timeout m \<Rightarrow>
          Inr (''ERROR: Request timed out after retries. The model may be overloaded. ''
               @ ''Try again later.'')
      | HTTPError m resp \<Rightarrow>
          (case error_detail loads resp of
             Inl e' \<Rightarrow> Inl e'
           | Inr detail \<Rightarrow> Inr (''ERROR: API request failed: '' @ m @ nl @ py_str detail))
      | _ \<Rightarrow> Inr (''ERROR: Unexpected error: '' @ exn_str e))"

record openrouter_call =
  sent_user_message :: string
  call_result :: "exn + string"

definition call_openrouter ::
  "(string \<Rightarrow> string + json) \<Rightarrow> config \<Rightarrow> string \<Rightarrow> review_context \<Rightarrow>
   (nat \<Rightarrow> response outcome) \<Rightarrow> openrouter_call"
where
  "call_openrouter loads cfg review_type context post =
     \<lparr>sent_user_message = review_user_message cfg context review_type,
      call_result =
        (case run_outcome (retry_with_backoff (make_request post) MAX_RETRIES) of
           Raises e \<Rightarrow> on_failure loads e
         | Returns response \<Rightarrow>
             (case decode_stream loads (body_lines response) of
                Inl e \<Rightarrow> on_failure loads e
              | Inr (text, st) \<Rightarrow> Inr text))\<rparr>"

text \<open>A response with a given status and body, and a server that always gives it.\<close>

definition http_response :: "int \<Rightarrow> string \<Rightarrow> string \<Rightarrow> response" where
  "http_response code phrase body =
     \<lparr>status_code = code, reason = phrase, body_text = body, body_lines = []\<rparr>"

definition stream_response :: "string list \<Rightarrow> response" where
  "stream_response lines =
     \<lparr>status_code = 200, reason = ''OK'', body_text = [], body_lines = lines\<rparr>"

definition plain_config :: config where
  "plain_config =
     \<lparr>cfg_model = ''moonshotai/kimi-k2.5'', cfg_max_context = None, cfg_reasoning = None,
      cfg_enable_web_search = None, cfg_council_models = None\<rparr>"

definition empty_context :: review_context where
  "empty_context =
     \<lparr>conversation_context = None, plan_content = None, pr_metadata = None, diff = None,
      file_contents = None, documentation = None, test_files = None, dependent_files = None\<rparr>"


section \<open>The council\<close>

text \<open>
  \<^verbatim>\<open>extract_content\<close> of \<^verbatim>\<open>council.py\<close>:
  \<^verbatim>\<open>
  try:
      choices = result.get("choices", [])
      if not choices:
          return "ERROR: No choices in API response"
      message = choices[0].get("message", {})
      content = message.get("content", "")
      if not content:
          if result.get("error"):
              return f"ERROR: {result['error'].get('message', 'Unknown error')}"
          return "ERROR: Empty content in API response"
      return content
  except (IndexError, KeyError, TypeError) as e:
      return f"ERROR: Unexpected response format: {e}"
  \<close>
\<close>

definition extract_body :: "json \<Rightarrow> exn + json" where
  "extract_body result =
     and_then (py_get result ''choices'' (JList [])) (\<lambda>choices.
       if \<not> py_truthy choices then Inr (JStr ''ERROR: No choices in API response'')
       else
         and_then (py_index0 choices) (\<lambda>choice.
         and_then (py_get choice ''message'' (JDict [])) (\<lambda>message.
         and_then (py_get message ''content'' (JStr [])) (\<lambda>content.
           if \<not> py_truthy content then
             and_then (py_get result ''error'' JNull) (\<lambda>err.
               if py_truthy err then
                 and_then (py_get err ''message'' (JStr ''Unknown error'')) (\<lambda>msg.
                   Inr (JStr (''ERROR: '' @ py_str msg)))
               else Inr (JStr ''ERROR: Empty content in API response''))
           else Inr content))))"

fun format_error :: "exn \<Rightarrow> bool" where
  "format_error (IndexError m) = True"
| "format_error (KeyError m) = True"
| "format_error (TypeError m) = True"
| "format_error e = False"

definition extract_content :: "json \<Rightarrow> exn + json" where
  "extract_content result =
     (case extract_body result of
        Inr content \<Rightarrow> Inr content
      | Inl e \<Rightarrow>
          if format_error e then Inr (JStr (''ERROR: Unexpected response format: '' @ exn_str e))
          else Inl e)"

text \<open>
  \<^verbatim>\<open>call_reviewer\<close>:
  \<^verbatim>\<open>
  start = time.time()
  try:
      resp = retry_with_backoff(make_request, role_name=name)
      result = resp.json()
      elapsed_ms = int((time.time() - start) * 1000)
      return {
          "role": role, "name": name, "model": model,
          "content": extract_content(result),
          "elapsed_ms": elapsed_ms,
          "tokens": {
              "input": result.get("usage", {}).get("prompt_tokens", 0),
              "output": result.get("usage", {}).get("completion_tokens", 0),
          }
      }
  except Exception as e:
      return {
          "role": role, "name": name, "model": model,
          "content": f"ERROR: {str(e)} (after {MAX_RETRIES} retries)",
          "elapsed_ms": int((time.time() - start) * 1000),
          "error": str(e)
      }
  \<close>
  The environment of one call gives the answers of the server and the readings of the
  clock: \<open>env_clock env k\<close> is what the \<open>k\<close>-th call of \<^verbatim>\<open>time.time()\<close> returns,
  in seconds. The attempt either gives the result or the exception together with the
  number of clock readings made so far. The request payload is not modelled.
\<close>

record reviewer_env =
  env_post :: "nat \<Rightarrow> response outcome"
  env_clock :: "nat \<Rightarrow> real"

record review_result =
  r_role :: string
  r_name :: string
  r_model :: string
  r_content :: json
  r_elapsed_ms :: int
  r_tokens :: "(json \<times> json) option"
  r_error :: "string option"

definition elapsed_at :: "reviewer_env \<Rightarrow> nat \<Rightarrow> int" where
  "elapsed_at env k = py_int ((env_clock env k - env_clock env 0) * 1000)"

definition reviewer_attempt ::
  "(string \<Rightarrow> string + json) \<Rightarrow> string \<Rightarrow> string \<Rightarrow> string \<Rightarrow> reviewer_env \<Rightarrow>
   (exn \<times> nat) + review_result"
where
  "reviewer_attempt loads role model name env =
     (case run_outcome (retry_with_backoff (make_request (env_post env)) MAX_RETRIES) of
        Raises e \<Rightarrow> Inl (e, 1)
      | Returns resp \<Rightarrow>
          (case response_json loads resp of
             Inl e \<Rightarrow> Inl (e, 1)
           | Inr result \<Rightarrow>
               (case
                  and_then (extract_content result) (\<lambda>content.
                  and_then (py_get result ''usage'' (JDict [])) (\<lambda>usage_in.
                  and_then (py_get usage_in ''prompt_tokens'' (JInt 0)) (\<lambda>tokens_in.
                  and_then (py_get result ''usage'' (JDict [])) (\<lambda>usage_out.
                  and_then (py_get usage_out ''completion_tokens'' (JInt 0)) (\<lambda>tokens_out.
                    Inr \<lparr>r_role = role, r_name = name, r_model = model, r_content = content,
                         r_elapsed_ms = elapsed_at env 1,
                         r_tokens = Some (tokens_in, tokens_out), r_error = None\<rparr>)))))
                of
                  Inl e \<Rightarrow> Inl (e, 2)
                | Inr r \<Rightarrow> Inr r)))"

definition call_reviewer ::
  "(string \<Rightarrow> string + json) \<Rightarrow> string \<Rightarrow> string \<Rightarrow> string \<Rightarrow> reviewer_env \<Rightarrow> review_result"
where
  "call_reviewer loads role model name env =
     (case reviewer_attempt loads role model name env of
        Inr r \<Rightarrow> r
      | Inl (e, readings) \<Rightarrow>
          \<lparr>r_role = role, r_name = name, r_model = model,
           r_content = JStr (''ERROR: '' @ exn_str e @ '' (after '' @ str_int MAX_RETRIES
                             @ '' retries)''),
           r_elapsed_ms = elapsed_at env readings,
           r_tokens = None, r_error = Some (exn_str e)\<rparr>)"

text \<open>
  \<^verbatim>\<open>get_council_config\<close>: the three members of a council, in the order of the
  returned list. The models are the defaults overridden by the configuration.
\<close>

record council_member =
  member_role :: string
  member_model :: string
  member_name :: string
  search_engine :: "string option"

definition DEFAULT_COUNCIL_MODELS :: "(string \<times> string) list" where
  "DEFAULT_COUNCIL_MODELS =
     [(''correctness'', ''openai/gpt-5.2''),
      (''performance'', ''google/gemini-3-pro-preview''),
      (''security'', ''x-ai/grok-4'')]"

definition council_model :: "config \<Rightarrow> string \<Rightarrow> string" where
  "council_model cfg key =
     (case map_of (case cfg_council_models cfg of None \<Rightarrow> [] | Some ms \<Rightarrow> ms) key of
        Some m \<Rightarrow> m
      | None \<Rightarrow> (case map_of DEFAULT_COUNCIL_MODELS key of Some m \<Rightarrow> m | None \<Rightarrow> []))"

definition web_search :: "config \<Rightarrow> bool" where
  "web_search cfg = (case cfg_enable_web_search cfg of None \<Rightarrow> False | Some b \<Rightarrow> b)"

definition seat ::
  "config \<Rightarrow> string \<Rightarrow> string \<Rightarrow> string \<Rightarrow> string \<Rightarrow> council_member"
where
  "seat cfg role key name engine =
     \<lparr>member_role = role,
      member_model = council_model cfg key @ (if web_search cfg then '':online'' else []),
      member_name = name,
      search_engine = (if web_search cfg then Some engine else None)\<rparr>"

definition get_council_config :: "config \<Rightarrow> string \<Rightarrow> council_member list" where
  "get_council_config cfg council_type =
     (if council_type = ''code'' then
        [seat cfg ''correctness'' ''correctness'' ''Correctness Expert'' ''native'',
         seat cfg ''performance'' ''performance'' ''Performance Critic'' ''exa'',
         seat cfg ''security'' ''security'' ''Security Analyst'' ''exa'']
      else
        [seat cfg ''design'' ''correctness'' ''Design Expert'' ''native'',
         seat cfg ''scalability'' ''performance'' ''Scalability Analyst'' ''exa'',
         seat cfg ''security'' ''security'' ''Security Architect'' ''exa''])"

text \<open>
  \<^verbatim>\<open>run_council\<close>:
  \<^verbatim>\<open>
  council_type = "plan" if review_type == "plan" else "code"
  council = get_council_config(config, council_type)
  user_message = build_user_message(context, review_type)
  ... truncation ...
  start = time.time()
  reviews = []
  with concurrent.futures.ThreadPoolExecutor(max_workers=3) as executor:
      futures = {executor.submit(call_reviewer, member["role"], member["model"],
                                 member["name"], user_message, review_type, api_key,
                                 reasoning, member.get("search_engine")): member
                 for member in council}
      for future in concurrent.futures.as_completed(futures):
          result = future.result()
          ...
          reviews.append(result)
  role_order = {r["role"]: i for i, r in enumerate(council)}
  reviews.sort(key=lambda r: role_order.get(r["role"], 99))
  return {"reviews": reviews,
          "metadata": {"total_ms": int((time.time() - start) * 1000),
                       "council_type": council_type}}
  \<close>
  Each of the three calls runs in a thread of its own, with an environment of its own
  (\<open>member_env env i\<close> for the member at position \<open>i\<close>). What the threads leave to
  chance is the order in which \<^verbatim>\<open>as_completed\<close> yields the three futures:
  \<open>completion_order env\<close> lists the positions of the members in that order, so it
  holds each of 0, 1 and 2 once. \<^verbatim>\<open>list.sort\<close> is stable, as \<open>sort_key\<close> is.
\<close>

record council_env =
  member_env :: "nat \<Rightarrow> reviewer_env"
  completion_order :: "nat list"
  main_clock :: "nat \<Rightarrow> real"

record council_run =
  council_sent :: string
  reviews :: "review_result list"
  total_ms :: int
  council_type :: string

definition role_order :: "council_member list \<Rightarrow> string \<Rightarrow> nat option" where
  "role_order council =
     fold (\<lambda>entry order. order(member_role (snd entry) \<mapsto> fst entry))
       (enumerate 0 council) Map.empty"

definition sort_rank :: "council_member list \<Rightarrow> review_result \<Rightarrow> nat" where
  "sort_rank council r = (case role_order council (r_role r) of Some i \<Rightarrow> i | None \<Rightarrow> 99)"

definition run_council ::
  "(string \<Rightarrow> string + json) \<Rightarrow> config \<Rightarrow> review_context \<Rightarrow> string \<Rightarrow> council_env \<Rightarrow>
   council_run"
where
  "run_council loads cfg context review_type env =
     (let ctype = (if review_type = ''plan'' then ''plan'' else ''code'');
          council = get_council_config cfg ctype;
          futures = map (\<lambda>entry.
                      call_reviewer loads (member_role (snd entry)) (member_model (snd entry))
                        (member_name (snd entry)) (member_env env (fst entry)))
                    (enumerate 0 council);
          completed = map (\<lambda>i. futures ! i) (completion_order env)
      in \<lparr>council_sent = council_user_message cfg context review_type,
          reviews = sort_key (sort_rank council) completed,
          total_ms = py_int ((main_clock env 1 - main_clock env 0) * 1000),
          council_type = ctype\<rparr>)"

text \<open>
  A completion order is a list that holds each position of the council once. The roles
  of a council in their declared order are the canonical order of its output.
\<close>

definition completion :: "nat list \<Rightarrow> bool" where
  "completion order = (distinct order \<and> set order = {0, 1, 2})"

definition canonical_roles :: "string \<Rightarrow> string list" where
  "canonical_roles review_type =
     (if review_type = ''plan'' then [''design'', ''scalability'', ''security'']
      else [''correctness'', ''performance'', ''security''])"

definition error_content :: "json \<Rightarrow> bool" where
  "error_content c = (case c of JStr s \<Rightarrow> starts_with ''ERROR:'' s | _ \<Rightarrow> False)"

definition quiet_reviewer :: reviewer_env where
  "quiet_reviewer = \<lparr>env_post = scripted [], env_clock = (\<lambda>k. 0)\<rparr>"

definition quiet_council :: council_env where
  "quiet_council =
     \<lparr>member_env = (\<lambda>i. quiet_reviewer), completion_order = [0, 1, 2], main_clock = (\<lambda>k. 0)\<rparr>"

definition pr_only_context :: review_context where
  "pr_only_context =
     empty_context\<lparr>pr_metadata :=
       Some \<lparr>pr_number = Some 42, pr_title = Some ''Add email validation'',
             pr_author = None, pr_head_branch = None, pr_base_branch = None,
             pr_additions = None, pr_deletions = None, pr_body = None\<rparr>\<rparr>"

(*THEOREMS*)

section \<open>Properties of the backoff executor\<close>

lemma three_attempts: "[0..<nat MAX_RETRIES] = [0, 1, 2]"
  by (simp add: MAX_RETRIES_def upt_rec)

lemma retry_step_transient:
  assumes "func calls = Raises e" "transient e" "int attempt < max_retries - 1"
  shows "retry_loop func max_retries (attempt # rest) le calls slept =
           retry_loop func max_retries rest (Some e) (Suc calls) (slept @ [backoff_wait attempt])"
  using assms by (cases e rule: transient.cases) (simp_all add: sleep_unless_last_def)

lemma retry_step_transient_last:
  assumes "func calls = Raises e" "transient e" "\<not> int attempt < max_retries - 1"
  shows "retry_loop func max_retries [attempt] le calls slept =
           \<lparr>run_outcome = Raises e, run_calls = Suc calls, run_sleeps = slept\<rparr>"
  using assms by (cases e rule: transient.cases) (simp_all add: sleep_unless_last_def raise_last_def)

lemma retry_step_permanent:
  assumes "func calls = Raises e" "\<not> transient e"
  shows "retry_loop func max_retries (attempt # rest) le calls slept =
           \<lparr>run_outcome = Raises e, run_calls = Suc calls, run_sleeps = slept\<rparr>"
  using assms by (cases e rule: transient.cases) simp_all

lemma retry_step_settled:
  assumes "\<not> qualifying_failure (func calls)"
  shows "retry_loop func max_retries (attempt # rest) le calls slept =
           \<lparr>run_outcome = func calls, run_calls = Suc calls, run_sleeps = slept\<rparr>"
proof (cases "func calls")
  case (Returns v)
  then show ?thesis by simp
next
  case (Raises e)
  with assms have nt: "\<not> transient e" by simp
  show ?thesis unfolding Raises
    by (rule retry_step_permanent [where func = func and calls = calls, OF Raises nt])
qed

lemma retry_step_qualifying:
  assumes "qualifying_failure (func calls)" "int attempt < max_retries - 1"
  shows "\<exists>e. retry_loop func max_retries (attempt # rest) le calls slept =
           retry_loop func max_retries rest (Some e) (Suc calls) (slept @ [backoff_wait attempt])"
proof (cases "func calls")
  case (Returns v)
  with assms show ?thesis by simp
next
  case (Raises e)
  with assms have t: "transient e" by simp
  show ?thesis
    using retry_step_transient [where func = func and calls = calls, OF Raises t assms(2)]
    by blast
qed

lemma retry_step_last:
  assumes "\<not> int attempt < max_retries - 1"
  shows "retry_loop func max_retries [attempt] le calls slept =
           \<lparr>run_outcome = func calls, run_calls = Suc calls, run_sleeps = slept\<rparr>"
proof (cases "qualifying_failure (func calls)")
  case False
  then show ?thesis by (rule retry_step_settled)
next
  case True
  then obtain e where e: "func calls = Raises e" "transient e"
    by (cases "func calls") simp_all
  show ?thesis unfolding e(1)
    by (rule retry_step_transient_last [where func = func and calls = calls, OF e assms])
qed

text \<open>
  With the default of three attempts a run is decided by the first call that does not
  end in a qualifying failure, or by the third call.
\<close>

lemma three_attempt_run:
  "retry_with_backoff func MAX_RETRIES =
     (if \<not> qualifying_failure (func 0) then
        \<lparr>run_outcome = func 0, run_calls = 1, run_sleeps = []\<rparr>
      else if \<not> qualifying_failure (func 1) then
        \<lparr>run_outcome = func 1, run_calls = 2, run_sleeps = [2]\<rparr>
      else
        \<lparr>run_outcome = func 2, run_calls = 3, run_sleeps = [2, 4]\<rparr>)"
proof -
  have w0: "backoff_wait 0 = 2" and w1: "backoff_wait (Suc 0) = 4"
    by (simp_all add: backoff_wait_def INITIAL_BACKOFF_SECONDS_def)
  have first: "int 0 < MAX_RETRIES - 1" and second: "int (Suc 0) < MAX_RETRIES - 1"
    and third: "\<not> int 2 < MAX_RETRIES - 1"
    by (simp_all add: MAX_RETRIES_def)
  show ?thesis
  proof (cases "qualifying_failure (func 0)")
    case False
    then show ?thesis
      unfolding retry_with_backoff_def three_attempts
      by (simp add: retry_step_settled del: retry_loop.simps)
  next
    case q0: True
    from retry_step_qualifying [where func = func and calls = 0, OF q0 first, of "[1, 2]" None "[]"]
    obtain e0 where s0: "retry_loop func MAX_RETRIES [0, 1, 2] None 0 [] =
        retry_loop func MAX_RETRIES [1, 2] (Some e0) (Suc 0) [2]"
      by (auto simp: w0)
    show ?thesis
    proof (cases "qualifying_failure (func 1)")
      case False
      then have "retry_loop func MAX_RETRIES [1, 2] (Some e0) (Suc 0) [2] =
          \<lparr>run_outcome = func 1, run_calls = 2, run_sleeps = [2]\<rparr>"
        using retry_step_settled [of func "Suc 0" MAX_RETRIES 1 "[2]" "Some e0" "[2]"] by simp
      with q0 False s0 show ?thesis
        unfolding retry_with_backoff_def three_attempts by simp
    next
      case q1: True
      then have q1': "qualifying_failure (func (Suc 0))" by simp
      from retry_step_qualifying [where func = func and calls = "Suc 0", OF q1' second, of "[2]" "Some e0" "[2]"]
      obtain e1 where s1: "retry_loop func MAX_RETRIES [1, 2] (Some e0) (Suc 0) [2] =
          retry_loop func MAX_RETRIES [2] (Some e1) (Suc (Suc 0)) [2, 4]"
        by (auto simp: w1)
      have "retry_loop func MAX_RETRIES [2] (Some e1) (Suc (Suc 0)) [2, 4] =
          \<lparr>run_outcome = func 2, run_calls = 3, run_sleeps = [2, 4]\<rparr>"
        using retry_step_last [OF third, of func "Some e1" "Suc (Suc 0)" "[2, 4]"]
        by (simp add: numeral_2_eq_2 numeral_3_eq_3)
      with q0 q1 s0 s1 show ?thesis
        unfolding retry_with_backoff_def three_attempts by simp
    qed
  qed
qed

lemma less_three: "k < 3 \<longleftrightarrow> k = 0 \<or> k = 1 \<or> k = (2::nat)"
  by auto

text \<open>
  C3. With the default of 3 attempts: the run retries on qualifying failures
  only (timeout, connection failure, HTTP status 500 or more, or 429). It returns the
  value of the first call that succeeds after qualifying failures, having made one
  call per failure and one more; an error that does not qualify is raised at once, at its first occurrence, with no further call;
  and when all three calls end in a qualifying failure, the failure of the third call is raised
  after exactly 3 calls.
\<close>

theorem retry_with_backoff_policy:
  "(\<forall>k v. k < 3 \<and> (\<forall>i<k. qualifying_failure (func i)) \<and> func k = Returns v \<longrightarrow>
       run_outcome (retry_with_backoff func MAX_RETRIES) = Returns v \<and>
       run_calls (retry_with_backoff func MAX_RETRIES) = Suc k)
   \<and> (\<forall>k e. k < 3 \<and> (\<forall>i<k. qualifying_failure (func i)) \<and> func k = Raises e \<and> \<not> transient e \<longrightarrow>
       run_outcome (retry_with_backoff func MAX_RETRIES) = Raises e \<and>
       run_calls (retry_with_backoff func MAX_RETRIES) = Suc k)
   \<and> ((\<forall>i<3. qualifying_failure (func i)) \<longrightarrow>
       run_outcome (retry_with_backoff func MAX_RETRIES) = func 2 \<and>
       run_calls (retry_with_backoff func MAX_RETRIES) = 3)
   \<and> run_calls (retry_with_backoff func MAX_RETRIES) \<le> 3"
  by (auto simp: less_three three_attempt_run)

theorem retry_with_backoff_policy_witness:
  "run_outcome (retry_with_backoff
      (scripted [http_failure 500, http_failure 500, Returns ''success'']) MAX_RETRIES)
     = Returns ''success''
   \<and> run_calls (retry_with_backoff
      (scripted [http_failure 500, http_failure 500, Returns ''success'']) MAX_RETRIES) = 3
   \<and> run_outcome (retry_with_backoff (scripted [http_failure 400 :: string outcome]) MAX_RETRIES)
     = http_failure 400
   \<and> run_calls (retry_with_backoff (scripted [http_failure 400 :: string outcome]) MAX_RETRIES) = 1
   \<and> run_outcome (retry_with_backoff
      (scripted [http_failure 429, Raises (Timeout ''timed out''),
                 Raises (ConnectionError ''refused'') :: string outcome]) MAX_RETRIES)
     = Raises (ConnectionError ''refused'')
   \<and> run_calls (retry_with_backoff
      (scripted [http_failure 429, Raises (Timeout ''timed out''),
                 Raises (ConnectionError ''refused'') :: string outcome]) MAX_RETRIES) = 3"
proof -
  let ?ok = "scripted [http_failure 500, http_failure 500, Returns ''success'']"
  let ?bad = "scripted [http_failure 400 :: string outcome]"
  let ?down = "scripted [http_failure 429, Raises (Timeout ''timed out''),
                 Raises (ConnectionError ''refused'') :: string outcome]"
  have ok: "2 < (3::nat) \<and> (\<forall>i<2. qualifying_failure (?ok i)) \<and> ?ok 2 = Returns ''success''"
    by (simp add: scripted_def status_response_def less_Suc_eq numeral_2_eq_2)
  have bad: "0 < (3::nat) \<and> (\<forall>i<0. qualifying_failure (?bad i)) \<and> ?bad 0 = http_failure 400
      \<and> \<not> transient (HTTPError ''HTTP error'' (Some (status_response 400)))"
    by (simp add: scripted_def status_response_def)
  have down: "\<forall>i<3. qualifying_failure (?down i)"
    by (simp add: scripted_def status_response_def less_three)
  have down2: "?down 2 = Raises (ConnectionError ''refused'')"
    by (simp add: scripted_def)
  have "run_outcome (retry_with_backoff ?ok MAX_RETRIES) = Returns ''success''
      \<and> run_calls (retry_with_backoff ?ok MAX_RETRIES) = Suc 2"
    using retry_with_backoff_policy [of ?ok] ok by blast
  moreover have "run_outcome (retry_with_backoff ?bad MAX_RETRIES) = http_failure 400
      \<and> run_calls (retry_with_backoff ?bad MAX_RETRIES) = Suc 0"
    using retry_with_backoff_policy [of ?bad] bad by blast
  moreover have "run_outcome (retry_with_backoff ?down MAX_RETRIES) = ?down 2
      \<and> run_calls (retry_with_backoff ?down MAX_RETRIES) = 3"
    using retry_with_backoff_policy [of ?down] down by blast
  ultimately show ?thesis
    unfolding down2 by simp
qed

text \<open>
  C4 (amended). Before each retry the executor waits the initial delay times 2 to the power of the
  number of the failed attempt (from 0): after \<open>n\<close> calls the waits were those for
  the attempts 0 to \<open>n - 2\<close>. No wait follows the last attempt, so with the defaults a fully retried run waits
  2 and then 4, and nothing more.
\<close>

theorem backoff_waits:
  "run_sleeps (retry_with_backoff func MAX_RETRIES)
     = map backoff_wait [0..<run_calls (retry_with_backoff func MAX_RETRIES) - 1]
   \<and> (\<forall>k. backoff_wait k = INITIAL_BACKOFF_SECONDS * 2 ^ k)
   \<and> INITIAL_BACKOFF_SECONDS = 2
   \<and> ((\<forall>i<3. qualifying_failure (func i)) \<longrightarrow>
         run_calls (retry_with_backoff func MAX_RETRIES) = 3 \<and>
         run_sleeps (retry_with_backoff func MAX_RETRIES) = [2, 4])"
proof -
  have "[0..<Suc (Suc 0)] = [0, Suc 0]" by (simp add: upt_rec)
  then show ?thesis
    by (simp add: three_attempt_run backoff_wait_def INITIAL_BACKOFF_SECONDS_def less_three
        numeral_2_eq_2 numeral_3_eq_3)
qed

theorem backoff_waits_witness:
  "run_calls (retry_with_backoff
      (scripted [Raises (Timeout ''timed out''), http_failure 502,
                 Raises (ConnectionError ''reset'') :: string outcome]) MAX_RETRIES) = 3
   \<and> run_sleeps (retry_with_backoff
      (scripted [Raises (Timeout ''timed out''), http_failure 502,
                 Raises (ConnectionError ''reset'') :: string outcome]) MAX_RETRIES) = [2, 4]"
proof -
  let ?f = "scripted [Raises (Timeout ''timed out''), http_failure 502,
                 Raises (ConnectionError ''reset'') :: string outcome]"
  have "\<forall>i<3. qualifying_failure (?f i)"
    by (simp add: scripted_def status_response_def less_three)
  with backoff_waits [of ?f] show ?thesis by blast
qed

theorem three_timeouts_wait_twice:
  "run_calls (retry_with_backoff
      (scripted [Raises (Timeout ''timed out''), Raises (Timeout ''timed out''),
                 Raises (Timeout ''timed out'') :: string outcome]) MAX_RETRIES) = 3
   \<and> run_sleeps (retry_with_backoff
      (scripted [Raises (Timeout ''timed out''), Raises (Timeout ''timed out''),
                 Raises (Timeout ''timed out'') :: string outcome]) MAX_RETRIES) = [2, 4]
   \<and> run_sleeps (retry_with_backoff
      (scripted [Raises (Timeout ''timed out''), Raises (Timeout ''timed out''),
                 Raises (Timeout ''timed out'') :: string outcome]) MAX_RETRIES) \<noteq> [2, 4, 8]"
  by (simp add: three_attempt_run scripted_def)

text \<open>
  C10. An HTTP error without a response object is raised at its first occurrence:
  no call and no wait follows it. The same error with
  a response of status 500 or more, or 429, on the first call is followed by a wait and a second call.
\<close>

theorem http_error_without_response:
  "(\<forall>k m. k < 3 \<and> (\<forall>i<k. qualifying_failure (func i)) \<and> func k = Raises (HTTPError m None) \<longrightarrow>
       run_outcome (retry_with_backoff func MAX_RETRIES) = Raises (HTTPError m None) \<and>
       run_calls (retry_with_backoff func MAX_RETRIES) = Suc k \<and>
       run_sleeps (retry_with_backoff func MAX_RETRIES) = map backoff_wait [0..<k])
   \<and> (\<forall>m r. func 0 = Raises (HTTPError m (Some r)) \<and> (status_code r \<ge> 500 \<or> status_code r = 429) \<longrightarrow>
       run_calls (retry_with_backoff func MAX_RETRIES) \<ge> 2 \<and>
       take 1 (run_sleeps (retry_with_backoff func MAX_RETRIES)) = [2])"
proof -
  have "[0..<Suc (Suc 0)] = [0, Suc 0]" by (simp add: upt_rec)
  then show ?thesis
    by (auto simp: three_attempt_run backoff_wait_def INITIAL_BACKOFF_SECONDS_def less_three
        numeral_2_eq_2)
qed

theorem http_error_without_response_witness:
  "run_outcome (retry_with_backoff
      (scripted [Raises (HTTPError ''503 Server Error'' None), Returns ''late'']) MAX_RETRIES)
     = Raises (HTTPError ''503 Server Error'' None)
   \<and> run_calls (retry_with_backoff
      (scripted [Raises (HTTPError ''503 Server Error'' None), Returns ''late'']) MAX_RETRIES) = 1
   \<and> run_sleeps (retry_with_backoff
      (scripted [Raises (HTTPError ''503 Server Error'' None), Returns ''late'']) MAX_RETRIES) = []
   \<and> run_calls (retry_with_backoff
      (scripted [http_failure 503, Returns ''late'']) MAX_RETRIES) \<ge> 2"
proof -
  let ?bare = "scripted [Raises (HTTPError ''503 Server Error'' None), Returns ''late'']"
  let ?full = "scripted [http_failure 503, Returns ''late'']"
  have bare: "0 < (3::nat) \<and> (\<forall>i<0. qualifying_failure (?bare i))
      \<and> ?bare 0 = Raises (HTTPError ''503 Server Error'' None)"
    by (simp add: scripted_def)
  have full: "?full 0 = Raises (HTTPError ''HTTP error'' (Some (status_response 503)))
      \<and> (status_code (status_response 503) \<ge> 500 \<or> status_code (status_response 503) = 429)"
    by (simp add: scripted_def status_response_def)
  have "run_outcome (retry_with_backoff ?bare MAX_RETRIES) = Raises (HTTPError ''503 Server Error'' None)
      \<and> run_calls (retry_with_backoff ?bare MAX_RETRIES) = Suc 0
      \<and> run_sleeps (retry_with_backoff ?bare MAX_RETRIES) = map backoff_wait [0..<0]"
    using http_error_without_response [of ?bare] bare by blast
  moreover have "run_calls (retry_with_backoff ?full MAX_RETRIES) \<ge> 2"
    using http_error_without_response [of ?full] full by blast
  ultimately show ?thesis by simp
qed

lemma truncate_long:
  assumes "0 \<le> L" "int (length prompt) > L"
  shows "truncate_message marker L prompt = take (nat L) prompt @ marker"
    and "int (length (truncate_message marker L prompt)) = L + int (length marker)"
    and "suffix marker (truncate_message marker L prompt)"
  using assms by (simp_all add: truncate_message_def py_slice_to_def suffix_def)

lemma truncate_short:
  assumes "int (length prompt) \<le> L"
  shows "truncate_message marker L prompt = prompt"
  using assms by (simp add: truncate_message_def)

lemma council_marker_end: "suffix ''[... truncated ...]'' council_marker"
  by (simp add: council_marker_def suffix_def)

lemma review_marker_end: "suffix ''[... truncated due to length ...]'' review_marker"
  by (simp add: review_marker_def suffix_def)

lemma council_sent_eq:
  "council_sent (run_council loads cfg context review_type env)
     = truncate_message council_marker (max_context_of cfg)
         (council_build_user_message context review_type)"
  by (simp add: run_council_def Let_def council_user_message_def)

lemma review_sent_eq:
  "sent_user_message (call_openrouter loads cfg review_type context post)
     = truncate_message review_marker (max_context_of cfg)
         (review_build_user_message context review_type)"
  by (simp add: call_openrouter_def review_user_message_def)

theorem truncation_boundary:
  "0 \<le> max_context_of cfg \<longrightarrow>
     (int (length (council_build_user_message context review_type)) > max_context_of cfg \<longrightarrow>
        council_sent (run_council loads cfg context review_type env)
          = take (nat (max_context_of cfg)) (council_build_user_message context review_type)
            @ council_marker
        \<and> int (length (council_sent (run_council loads cfg context review_type env)))
          = max_context_of cfg + int (length council_marker)
        \<and> suffix ''[... truncated ...]''
            (council_sent (run_council loads cfg context review_type env)))
   \<and> (int (length (council_build_user_message context review_type)) \<le> max_context_of cfg \<longrightarrow>
        council_sent (run_council loads cfg context review_type env)
          = council_build_user_message context review_type)
   \<and> (int (length (review_build_user_message context review_type)) > max_context_of cfg \<longrightarrow>
        sent_user_message (call_openrouter loads cfg review_type context post)
          = take (nat (max_context_of cfg)) (review_build_user_message context review_type)
            @ review_marker
        \<and> int (length (sent_user_message (call_openrouter loads cfg review_type context post)))
          = max_context_of cfg + int (length review_marker)
        \<and> suffix ''[... truncated due to length ...]''
            (sent_user_message (call_openrouter loads cfg review_type context post)))
   \<and> (int (length (review_build_user_message context review_type)) \<le> max_context_of cfg \<longrightarrow>
        sent_user_message (call_openrouter loads cfg review_type context post)
          = review_build_user_message context review_type)"
  unfolding council_sent_eq review_sent_eq
  by (auto simp: truncate_long truncate_short
        intro: suffix_appendI council_marker_end review_marker_end)

lemma plan_prompt_review:
  "review_build_user_message empty_context ''plan''
     = ''## Plan to Review'' @ nl @ ''No plan content provided'' @ nl @ nl"
  by (simp add: review_build_user_message_def review_parts_def intent_parts_def plan_parts_def
      review_pr_parts_def common_parts_def diff_parts_def files_parts_def empty_context_def
      conversation_given_def pr_given_def given_def)

lemma plan_prompt_council:
  "council_build_user_message empty_context ''plan''
     = ''## Plan to Review'' @ nl @ ''No plan content'' @ nl @ nl"
  by (simp add: council_build_user_message_def council_parts_def intent_parts_def plan_parts_def
      council_pr_parts_def common_parts_def diff_parts_def files_parts_def empty_context_def
      conversation_given_def pr_given_def given_def)

theorem truncation_boundary_witness:
  "council_sent (run_council json_loads (plain_config\<lparr>cfg_max_context := Some 5\<rparr>)
        empty_context ''plan'' quiet_council)
     = ''## Pl'' @ nl @ nl @ ''[... truncated ...]''
   \<and> sent_user_message (call_openrouter json_loads (plain_config\<lparr>cfg_max_context := Some 5\<rparr>)
        ''plan'' empty_context (scripted []))
     = ''## Pl'' @ nl @ nl @ ''[... truncated due to length ...]''
   \<and> council_sent (run_council json_loads (plain_config\<lparr>cfg_max_context := Some 100\<rparr>)
        empty_context ''plan'' quiet_council)
     = ''## Plan to Review'' @ nl @ ''No plan content'' @ nl @ nl"
proof -
  let ?small = "plain_config\<lparr>cfg_max_context := Some 5\<rparr>"
  let ?large = "plain_config\<lparr>cfg_max_context := Some 100\<rparr>"
  have small: "max_context_of ?small = 5" and large: "max_context_of ?large = 100"
    by (simp_all add: max_context_of_def plain_config_def)
  have "council_sent (run_council json_loads ?small empty_context ''plan'' quiet_council)
      = take (nat 5) (council_build_user_message empty_context ''plan'') @ council_marker"
    using truncation_boundary [of ?small empty_context "''plan''" json_loads quiet_council "scripted []"]
    by (simp add: small plan_prompt_council)
  moreover have "sent_user_message (call_openrouter json_loads ?small ''plan'' empty_context (scripted []))
      = take (nat 5) (review_build_user_message empty_context ''plan'') @ review_marker"
    using truncation_boundary [of ?small empty_context "''plan''" json_loads quiet_council "scripted []"]
    by (simp add: small plan_prompt_review)
  moreover have "council_sent (run_council json_loads ?large empty_context ''plan'' quiet_council)
      = council_build_user_message empty_context ''plan''"
    using truncation_boundary [of ?large empty_context "''plan''" json_loads quiet_council "scripted []"]
    by (simp add: large plan_prompt_council)
  ultimately show ?thesis
    by (simp add: plan_prompt_council plan_prompt_review council_marker_def review_marker_def)
qed

theorem truncation_marker_differs:
  "int (length (review_build_user_message empty_context ''plan'')) > 5
   \<and> \<not> suffix ''[... truncated ...]''
        (sent_user_message (call_openrouter json_loads (plain_config\<lparr>cfg_max_context := Some 5\<rparr>)
           ''plan'' empty_context (scripted [])))
   \<and> int (length (council_build_user_message empty_context ''plan'')) > - 1
   \<and> \<not> int (length (council_sent (run_council json_loads
           (plain_config\<lparr>cfg_max_context := Some (- 1)\<rparr>) empty_context ''plan'' quiet_council)))
        \<le> - 1 + int (length council_marker)"
  by (simp add: review_sent_eq council_sent_eq plan_prompt_review plan_prompt_council
      max_context_of_def plain_config_def truncate_message_def py_slice_to_def
      review_marker_def council_marker_def suffix_to_prefix)

lemma labelled_no_header: "Header s \<notin> set (labelled label v)"
  by (cases v) (simp_all add: labelled_def)

lemma discussion_no_header: "Header s \<notin> set (discussion_parts v)"
  by (cases v) (auto simp: discussion_parts_def exchange_part_def Let_def)

lemma intent_parts_cases:
  "intent_parts context =
     (if conversation_given (conversation_context context) then
        [Header Developer_Intent]
        @ labelled ''**Original Request:** ''
            (original_request (the (conversation_context context)))
        @ labelled ''**Approach Notes:** '' (approach_notes (the (conversation_context context)))
        @ discussion_parts (relevant_exchanges (the (conversation_context context)))
        @ labelled ''**Prior Review Notes:** ''
            (previous_review_findings (the (conversation_context context)))
        @ [Text (''---'' @ nl @ nl)]
      else [])"
  by (cases "conversation_context context") (simp_all add: intent_parts_def conversation_given_def)

lemma intent_header:
  "Header s \<in> set (intent_parts context)
     \<longleftrightarrow> s = Developer_Intent \<and> conversation_given (conversation_context context)"
  unfolding intent_parts_cases
  by (cases "conversation_given (conversation_context context)")
     (auto simp: labelled_no_header discussion_no_header)

lemma plan_header:
  "Header s \<in> set (plan_parts placeholder context review_type)
     \<longleftrightarrow> s = Plan_To_Review \<and> review_type = ''plan''"
  by (cases "review_type = ''plan''") (auto simp: plan_parts_def)

lemma pr_body_no_header: "Header s \<notin> set (pr_body_parts pr)"
  by (cases "given (pr_body pr)") (simp_all add: pr_body_parts_def)

lemma review_pr_header:
  "Header s \<in> set (review_pr_parts context review_type)
     \<longleftrightarrow> s = Pull_Request_Information \<and> review_type = ''pr'' \<and> pr_given (pr_metadata context)"
proof (cases "review_type = ''pr'' \<and> pr_given (pr_metadata context)")
  case True
  then obtain pr where pr: "pr_metadata context = Some pr"
    by (cases "pr_metadata context") (simp_all add: pr_given_def)
  have "\<exists>a b c d. review_pr_parts context review_type
      = [Header Pull_Request_Information, Text a, Text b, Text c, Text d] @ pr_body_parts pr"
    using True pr by (simp add: review_pr_parts_def)
  then obtain a b c d where "review_pr_parts context review_type
      = [Header Pull_Request_Information, Text a, Text b, Text c, Text d] @ pr_body_parts pr"
    by blast
  with True show ?thesis
    by (auto simp: pr_body_no_header)
next
  case False
  then have "review_pr_parts context review_type = []"
    unfolding review_pr_parts_def by (rule if_not_P)
  with False show ?thesis by auto
qed

lemma council_pr_header:
  "Header s \<in> set (council_pr_parts context review_type)
     \<longleftrightarrow> s = Pull_Request_Information \<and> review_type = ''pr'' \<and> pr_given (pr_metadata context)"
proof (cases "review_type = ''pr'' \<and> pr_given (pr_metadata context)")
  case True
  then obtain pr where pr: "pr_metadata context = Some pr"
    by (cases "pr_metadata context") (simp_all add: pr_given_def)
  have "\<exists>a b c d. council_pr_parts context review_type
      = [Header Pull_Request_Information, Text a, Text b, Text c, Text d] @ pr_body_parts pr"
    using True pr by (simp add: council_pr_parts_def)
  then obtain a b c d where "council_pr_parts context review_type
      = [Header Pull_Request_Information, Text a, Text b, Text c, Text d] @ pr_body_parts pr"
    by blast
  with True show ?thesis
    by (auto simp: pr_body_no_header)
next
  case False
  then have "council_pr_parts context review_type = []"
    unfolding council_pr_parts_def by (rule if_not_P)
  with False show ?thesis by auto
qed

lemma diff_header:
  "Header s \<in> set (diff_parts context) \<longleftrightarrow> s = Code_Changes \<and> given (diff context)"
  by (cases "given (diff context)") (auto simp: diff_parts_def)

lemma files_parts_cases:
  "files_parts h entry_part v = (if given v then Header h # map entry_part (the v) else [])"
  by (cases v) (simp_all add: files_parts_def given_def)

lemma files_header:
  "Header s \<in> set (files_parts h fenced_file v) \<longleftrightarrow> s = h \<and> given v"
  "Header s \<in> set (files_parts h plain_file v) \<longleftrightarrow> s = h \<and> given v"
  unfolding files_parts_cases
  by (cases "given v"; auto simp: fenced_file_def plain_file_def)+

lemma common_header:
  "Header s \<in> set (common_parts context)
     \<longleftrightarrow> s \<in> {Code_Changes, Full_File_Contents, Relevant_Documentation, Related_Test_Files,
               Cross_File_Dependencies} \<and> section_condition s context review_type"
  by (auto simp: common_parts_def diff_header files_header)

lemma review_header:
  "Header s \<in> set (review_parts context review_type) \<longleftrightarrow> section_condition s context review_type"
  by (cases s)
     (auto simp: review_parts_def intent_header plan_header review_pr_header
        common_header [of _ _ review_type])

lemma council_header:
  "Header s \<in> set (council_parts context review_type) \<longleftrightarrow> section_condition s context review_type"
  by (cases s)
     (auto simp: council_parts_def intent_header plan_header council_pr_header
        common_header [of _ _ review_type])

lemma header_in_text:
  assumes "Header s \<in> set ps"
  shows "sublist (header_title s) (concat (map render ps))"
proof -
  from assms obtain before after where "ps = before @ Header s # after"
    by (auto dest: split_list)
  moreover obtain tail where "render (Header s) = header_title s @ tail"
    by (cases s) simp_all
  ultimately have "concat (map render ps)
      = concat (map render before) @ header_title s @ (tail @ concat (map render after))"
    by simp
  then show ?thesis
    unfolding sublist_def by blast
qed

text \<open>
  C9 (amended). In both scripts the renderer emits the header of a section exactly when the
  guard of its block holds: for Developer Intent, Code Changes (Diff), Full File
  Contents, Relevant Documentation, Related Test Files and Cross-File Dependencies,
  when the field is present and not empty; for Pull Request Information, when in
  addition the review type is pr. An emitted header is part of the
  returned text.
\<close>

theorem section_headers:
  "(Header s \<in> set (review_parts context review_type)
      \<longleftrightarrow> section_condition s context review_type)
   \<and> (Header s \<in> set (council_parts context review_type)
      \<longleftrightarrow> section_condition s context review_type)
   \<and> (section_condition s context review_type \<longrightarrow>
        sublist (header_title s) (review_build_user_message context review_type) \<and>
        sublist (header_title s) (council_build_user_message context review_type))
   \<and> (section_condition Pull_Request_Information context review_type
      \<longleftrightarrow> review_type = ''pr'' \<and> pr_given (pr_metadata context))"
  by (simp add: review_header council_header header_in_text review_build_user_message_def
      council_build_user_message_def)

theorem section_headers_witness:
  "sublist ''## Pull Request Information'' (review_build_user_message pr_only_context ''pr'')
   \<and> sublist ''## Pull Request Information'' (council_build_user_message pr_only_context ''pr'')
   \<and> Header Pull_Request_Information \<notin> set (review_parts pr_only_context ''code'')
   \<and> Header Code_Changes \<notin> set (council_parts pr_only_context ''pr'')"
proof -
  have yes: "section_condition Pull_Request_Information pr_only_context ''pr''"
    by (simp add: pr_only_context_def empty_context_def pr_given_def)
  have no: "\<not> section_condition Pull_Request_Information pr_only_context ''code''"
    "\<not> section_condition Code_Changes pr_only_context ''pr''"
    by (simp_all add: pr_only_context_def empty_context_def given_def)
  from yes no show ?thesis
    using section_headers [of Pull_Request_Information pr_only_context "''pr''"]
      section_headers [of Pull_Request_Information pr_only_context "''code''"]
      section_headers [of Code_Changes pr_only_context "''pr''"]
    by simp
qed

theorem pr_header_absent_in_code_mode:
  "pr_given (pr_metadata pr_only_context)
   \<and> review_build_user_message pr_only_context ''code'' = []
   \<and> council_build_user_message pr_only_context ''code'' = []
   \<and> \<not> sublist ''## Pull Request Information'' (review_build_user_message pr_only_context ''code'')
   \<and> \<not> sublist ''## Pull Request Information'' (council_build_user_message pr_only_context ''code'')"
  by (simp add: review_build_user_message_def review_parts_def council_build_user_message_def
      council_parts_def intent_parts_def plan_parts_def review_pr_parts_def council_pr_parts_def
      common_parts_def diff_parts_def files_parts_def pr_only_context_def empty_context_def
      conversation_given_def pr_given_def given_def)

end
